theory Spec2Isabelle
  imports Main "HOL-Library.Word"
begin

section \<open>Go values shared by both layers\<close>

text \<open>
  A Go \<open>error\<close> value. The client compares an error with the sentinel
  \<open>context.Canceled\<close> by identity, so the two context sentinels are constructors of
  their own; every other error is known to this program only through its text
  (\<open>err.Error()\<close>), whether it comes from \<open>errors.New\<close> or from a library.
\<close>

datatype error = Canceled | DeadlineExceeded | errorString string

fun Error :: "error \<Rightarrow> string" where
  "Error Canceled = ''context canceled''"
| "Error DeadlineExceeded = ''context deadline exceeded''"
| "Error (errorString s) = s"

text \<open>\<open>time.Duration\<close> is an \<open>int64\<close> count of nanoseconds; its arithmetic wraps.\<close>

type_synonym Duration = "64 word"

definition Millisecond :: Duration where
  "Millisecond = 1000000"

section \<open>The resilient client (package http of tng-lib)\<close>

text \<open>
  The functions of this section are \<open>New\<close>, \<open>getCertPool\<close>, \<open>Client.Do\<close>,
  \<open>Client.Get\<close>, \<open>Client.Post\<close>, \<open>Client.do\<close>, \<open>Client.handle\<close> and the status
  predicates of the vendored client. Go's \<open>int\<close> is \<open>int\<close> here: the program compares
  such values and counts \<open>retries\<close> up to \<open>maxRetry\<close>, so no operation on them can
  overflow.
\<close>

subsection \<open>Data\<close>

text \<open>
  \<open>http.Header\<close>: the values added under each key, in the order of \<open>Add\<close>.
  Keys are taken in canonical form.
\<close>

type_synonym Header = "(string \<times> string) list"

text \<open>
  The captured response. Of its thirteen fields the program reads \<open>StatusCode\<close> and
  \<open>Body\<close>; the others are copied from the transport's answer and never inspected.
\<close>

record Response =
  Status :: string
  StatusCode :: int
  Body :: string

text \<open>
  \<open>http.Transport\<close> with its \<open>TLSClientConfig\<close>, and \<open>http.Client\<close>. Their fields
  have the names of the fields of \<open>Config\<close> in the source and carry a prefix here.
\<close>

record Transport =
  TLS_InsecureSkipVerify :: bool
  TLS_RootCAs :: "string list option"
  Transport_MaxConnsPerHost :: int
  Transport_MaxIdleConns :: int
  Transport_MaxIdleConnsPerHost :: int
  Transport_IdleConnTimeout :: Duration

record HttpClient =
  transport :: Transport
  Client_Timeout :: Duration

record Client =
  client :: HttpClient
  url :: string
  headers :: Header
  maxRetry :: int
  retryDelay :: Duration

text \<open>The request handed to the transport: method, base URL and relative path, headers, body.\<close>

record Request =
  Method :: string
  Base :: string
  Path :: string
  Header :: Header
  ReqBody :: string

text \<open>
  What the pooled transport answers to the attempts of one call: attempt number \<open>i\<close>
  (from 0) of \<open>c.client.Do\<close> followed by reading the body either fails with an error
  (already unwrapped from \<open>*url.Error\<close>, as \<open>handle\<close> does) or yields a response.
\<close>

type_synonym roundTrip = "nat \<Rightarrow> error + Response"

text \<open>
  The effects of one call that the retry policy is about: how many attempts were made and
  which delays were slept, in order.
\<close>

record call_state =
  attempts :: nat
  sleeps :: "Duration list"

definition call_start :: call_state where
  "call_start = \<lparr>attempts = 0, sleeps = []\<rparr>"

subsection \<open>Status classes\<close>

definition inRange :: "int \<Rightarrow> int \<Rightarrow> int \<Rightarrow> bool" where
  "inRange code a b = (a \<le> code \<and> code < b)"

definition IsSuccessful :: "int \<Rightarrow> bool" where
  "IsSuccessful code = inRange code 200 300"

definition IsServerError :: "int \<Rightarrow> bool" where
  "IsServerError code = inRange code 500 600"

definition IsClientError :: "int \<Rightarrow> bool" where
  "IsClientError code = inRange code 400 500"

subsection \<open>One attempt, and the retry loop\<close>

text \<open>
  \<open>Client.handle\<close>: one attempt. It returns \<open>(nil, err)\<close> or \<open>(&response, nil)\<close>,
  never both, which is the sum type. The metrics it records are not modelled.
\<close>

definition handle :: "roundTrip \<Rightarrow> call_state \<Rightarrow> (error + Response) \<times> call_state" where
  "handle t s = (t (attempts s), s\<lparr>attempts := Suc (attempts s)\<rparr>)"

definition Sleep :: "Duration \<Rightarrow> call_state \<Rightarrow> call_state" where
  "Sleep d s = s\<lparr>sleeps := sleeps s @ [d]\<rparr>"

text \<open>
  The loop \<open>for retries < c.maxRetry\<close> of \<open>Client.do\<close>. \<open>prev\<close> is the pair
  \<open>(response, err)\<close> as it stands when the loop condition is tested.
\<close>

function retry_loop ::
  "Client \<Rightarrow> roundTrip \<Rightarrow> int \<Rightarrow> (error + Response) \<Rightarrow> call_state \<Rightarrow> (error + Response) \<times> call_state"
where
  "retry_loop c t retries prev s =
     (if retries < maxRetry c then
        (case handle t (Sleep (retryDelay c) s) of
           (Inl err, s') \<Rightarrow> retry_loop c t (retries + 1) (Inl err) s'
         | (Inr response, s') \<Rightarrow>
             if \<not> inRange (StatusCode response) 500 600 then (Inr response, s')
             else retry_loop c t (retries + 1) (Inr response) s')
      else (prev, s))"
  by pat_completeness auto
termination
  by (relation "measure (\<lambda>(c, t, retries, prev, s). nat (maxRetry c - retries))") auto

declare retry_loop.simps [simp del]

text \<open>\<open>Client.do\<close>: the first attempt, the gate to the retry loop, the loop.\<close>

definition do :: "Client \<Rightarrow> roundTrip \<Rightarrow> call_state \<Rightarrow> (error + Response) \<times> call_state" where
  "do c t s =
     (case handle t s of
        (r, s') \<Rightarrow>
          if (case r of Inl err \<Rightarrow> True | Inr response \<Rightarrow> inRange (StatusCode response) 500 600)
             \<and> maxRetry c > 0
          then (if r = Inl Canceled then (r, s') else retry_loop c t 0 r s')
          else (r, s'))"

subsection \<open>Calls\<close>

text \<open>
  The services behind the clients: for each request, what the transport answers to the
  successive attempts of that call.
\<close>

type_synonym remote = "Request \<Rightarrow> roundTrip"

text \<open>
  \<open>Client.Do\<close>: the default headers of the client are added after the headers of the
  call. The result is paired with the request that was issued, which is the record of the
  call. \<open>http.NewRequest\<close> fails only on a malformed method or URL; the methods here are
  constants and the URL was parsed when the client was built, so that branch is left out.
\<close>

definition Do ::
  "Client \<Rightarrow> remote \<Rightarrow> string \<Rightarrow> string \<Rightarrow> Header \<Rightarrow> string \<Rightarrow> (error + Response) \<times> Request"
where
  "Do c net method rel hdrs body =
     (let request = \<lparr>Method = method, Base = url c, Path = rel,
                     Header = hdrs @ headers c, ReqBody = body\<rparr>
      in (fst (do c (net request) call_start), request))"

definition Get :: "Client \<Rightarrow> remote \<Rightarrow> string \<Rightarrow> Header \<Rightarrow> (error + Response) \<times> Request" where
  "Get c net rel hdrs = Do c net ''GET'' rel hdrs []"

definition Post ::
  "Client \<Rightarrow> remote \<Rightarrow> string \<Rightarrow> Header \<Rightarrow> string \<Rightarrow> (error + Response) \<times> Request"
where
  "Post c net rel hdrs body = Do c net ''POST'' rel hdrs body"

subsection \<open>Construction\<close>

record Config =
  URL :: string
  Timeout :: Duration
  IdleConnTimeout :: Duration
  InsecureSkipVerify :: bool
  MaxConnsPerHost :: int
  MaxIdleConns :: int
  MaxIdleConnsPerHost :: int
  Headers :: "(string \<times> string) list"
  MaxRetry :: int
  RetryDelay :: Duration
  RootCAs :: "string list"

text \<open>
  What \<open>New\<close> takes from outside the program: \<open>url.Parse\<close>, the files of the CA
  bundles (\<open>ioutil.ReadFile\<close>), whether a file holds a certificate
  (\<open>AppendCertsFromPEM\<close>), and the canonical form of a header key.
\<close>

record Sys =
  Parse :: "string \<Rightarrow> error + string"
  ReadFile :: "string \<Rightarrow> error + string"
  AppendCertsFromPEM :: "string \<Rightarrow> bool"
  CanonicalMIMEHeaderKey :: "string \<Rightarrow> string"

definition Header_Set :: "Sys \<Rightarrow> Header \<Rightarrow> string \<Rightarrow> string \<Rightarrow> Header" where
  "Header_Set sys h k v =
     filter (\<lambda>(k', _). k' \<noteq> CanonicalMIMEHeaderKey sys k) h @ [(CanonicalMIMEHeaderKey sys k, v)]"

text \<open>\<open>getCertPool\<close>; the pool \<open>cp\<close> is the list of the bundles added so far.\<close>

fun getCertPool :: "Sys \<Rightarrow> string list \<Rightarrow> string list \<Rightarrow> string list \<times> error option" where
  "getCertPool sys [] cp = (cp, None)"
| "getCertPool sys (p # ps) cp =
     (if p \<noteq> [] then
        (case ReadFile sys p of
           Inl err \<Rightarrow> (cp, Some err)
         | Inr caCert \<Rightarrow>
             if \<not> AppendCertsFromPEM sys caCert
             then (cp, Some (errorString ''unable to add ca bundle''))
             else getCertPool sys ps (cp @ [caCert]))
      else getCertPool sys ps cp)"

definition New :: "Sys \<Rightarrow> Config \<Rightarrow> error + Client" where
  "New sys conf =
     (case Parse sys (URL conf) of
        Inl err \<Rightarrow> Inl err
      | Inr uri \<Rightarrow>
          (let tr = \<lparr>TLS_InsecureSkipVerify = InsecureSkipVerify conf, TLS_RootCAs = None,
                     Transport_MaxConnsPerHost = MaxConnsPerHost conf,
                     Transport_MaxIdleConns = MaxIdleConns conf,
                     Transport_MaxIdleConnsPerHost = MaxIdleConnsPerHost conf,
                     Transport_IdleConnTimeout = IdleConnTimeout conf * Millisecond\<rparr>
           in case (if length (RootCAs conf) > 0
                    then (case getCertPool sys (RootCAs conf) [] of
                            (cp, Some err) \<Rightarrow> Inl err
                          | (cp, None) \<Rightarrow> Inr (tr\<lparr>TLS_RootCAs := Some cp\<rparr>))
                    else Inr tr) of
                Inl err \<Rightarrow> Inl err
              | Inr tr' \<Rightarrow>
                  Inr \<lparr>client = \<lparr>transport = tr', Client_Timeout = Timeout conf * Millisecond\<rparr>,
                       url = uri,
                       headers = foldl (\<lambda>h (k, v). Header_Set sys h k v) [] (Headers conf),
                       maxRetry = MaxRetry conf,
                       retryDelay = RetryDelay conf\<rparr>))"

section \<open>The authorization middleware (package router)\<close>

text \<open>
  The functions of this section are \<open>NewAuthentication\<close>, \<open>Authentication.String\<close>,
  \<open>getAuthentication\<close>, \<open>NewRBAC\<close>, \<open>RBAC.getUser\<close>, \<open>RBAC.getBusinessLines\<close>,
  \<open>RBAC.getBusinessUnits\<close> and \<open>RBAC.Middleware\<close>.
\<close>

subsection \<open>Data\<close>

definition UnauthorizedMSG :: string where
  "UnauthorizedMSG = ''The request is not authorized''"

definition ErrNoToken :: error where
  "ErrNoToken = errorString ''no token''"

definition ErrUnsupportedAuthentication :: error where
  "ErrUnsupportedAuthentication = errorString ''unsupported authentication''"

record RouterConfig =
  LoginService :: Config
  MemberWrapper :: Config

text \<open>The two clients are pointers; \<open>None\<close> is \<open>nil\<close>.\<close>

record RBAC =
  loginService :: "Client option"
  memberWrapper :: "Client option"

record Authentication =
  Type :: string
  Credenteials :: string

record Info =
  Cn :: string
  SAMAccountName :: string
  Mail :: string
  MemberOf :: "string list"

record User =
  Authentication :: Authentication
  Info :: "Info list"
  ExpTime :: int
  Roles :: "string list"
  BusinessLines :: "string list"
  BusinessUnits :: "int list"

text \<open>The zero values \<open>Authentication{}\<close> and \<open>User{}\<close>.\<close>

definition zeroAuthentication :: Authentication where
  "zeroAuthentication = \<lparr>Type = [], Credenteials = []\<rparr>"

definition zeroUser :: User where
  "zeroUser = \<lparr>Authentication = zeroAuthentication, Info = [], ExpTime = 0, Roles = [],
               BusinessLines = [], BusinessUnits = []\<rparr>"

text \<open>
  One row of a reference-data response. Its fields are \<open>Code\<close> and \<open>Name\<close> in the
  source; \<open>Code\<close> is also a field of \<open>errResonse\<close>, so the row's fields carry a prefix.
\<close>

record refData =
  RefCode :: string
  RefName :: string

record errResonse =
  Code :: int
  Message :: string

text \<open>
  The bodies the middleware writes: \<open>UnauthorizedResponse{Message, Error}\<close> and the
  router's \<open>ErrorResponse{Err}\<close>, each with the status code it is written with.
\<close>

datatype payload = UnauthorizedResponse string string | ErrorResponse string

text \<open>A nil pointer dereference: a method called on a nil client, \<open>Error()\<close> on a nil error.\<close>

datatype panic = NilPointerDereference

text \<open>
  What is left of a request when the middleware returns: the response it wrote itself (none
  when it hands over to the next handler), the user it attached to the request scope, how
  often it invoked the next handler, and the outbound calls it issued.
\<close>

record Outcome =
  written :: "(int \<times> payload) option"
  attached :: "User option"
  nextCalls :: nat
  calls :: "Request list"

subsection \<open>Library functions\<close>

text \<open>
  \<open>strings.Split(s, sep)\<close> for a separator of one byte: one more part than there are
  separators, empty parts included, and \<open>[""]\<close> for the empty string.
\<close>

fun Split :: "string \<Rightarrow> char \<Rightarrow> string list" where
  "Split [] sep = [[]]"
| "Split (c # cs) sep =
     (if c = sep then [] # Split cs sep
      else (case Split cs sep of [] \<Rightarrow> [[c]] | w # ws \<Rightarrow> (c # w) # ws))"

text \<open>
  \<open>strconv.Atoi\<close> where \<open>int\<close> has 64 bits: an optional sign, then at least one decimal
  digit and nothing else; the value must fit \<open>int64\<close>. The error is a \<open>*NumError\<close>,
  whose text quotes the input (\<open>strconv.Quote\<close>, given here for input without characters
  to escape).
\<close>

record NumError =
  Func :: string
  Num :: string
  Err :: string

definition NumError_Error :: "NumError \<Rightarrow> string" where
  "NumError_Error e =
     ''strconv.'' @ Func e @ '': parsing '' @ [CHR 0x22] @ Num e @ [CHR 0x22] @ '': '' @ Err e"

definition isDigit :: "char \<Rightarrow> bool" where
  "isDigit ch = (ch \<in> set ''0123456789'')"

fun digits :: "int \<Rightarrow> string \<Rightarrow> int" where
  "digits n [] = n"
| "digits n (ch # s) = digits (n * 10 + (of_char ch - 48)) s"

definition Atoi :: "string \<Rightarrow> NumError + int" where
  "Atoi s0 =
     (let neg = (s0 \<noteq> [] \<and> hd s0 = CHR ''-'');
          s = (if s0 \<noteq> [] \<and> (hd s0 = CHR ''-'' \<or> hd s0 = CHR ''+'') then tl s0 else s0)
      in if s = [] \<or> \<not> list_all isDigit s
         then Inl \<lparr>Func = ''Atoi'', Num = s0, Err = ''invalid syntax''\<rparr>
         else (let n = (if neg then - digits 0 s else digits 0 s)
               in if n < - (2 ^ 63) \<or> 2 ^ 63 \<le> n
                  then Inl \<lparr>Func = ''Atoi'', Num = s0, Err = ''value out of range''\<rparr>
                  else Inr n))"

text \<open>
  \<open>encoding/json\<close>, as far as the middleware uses it. \<open>MarshalToken\<close> encodes
  \<open>{token}\<close>. \<open>UnmarshalUser\<close> decodes a body into the three fields of \<open>User\<close> that
  have a JSON name (\<open>userInfo\<close>, \<open>expTime\<close>, \<open>chpRoles\<close>) and may have stored some of
  them when it reports an error. \<open>UnmarshalError\<close> decodes \<open>{error}\<close>,
  \<open>UnmarshalRefData\<close> decodes \<open>{refData}\<close>, \<open>UnmarshalMessage\<close> decodes \<open>{message}\<close>
  (the code of an \<open>errResonse\<close> has no JSON name).
\<close>

record Json =
  MarshalToken :: "string \<Rightarrow> error + string"
  UnmarshalUser :: "string \<Rightarrow> (Info list \<times> int \<times> string list) \<times> error option"
  UnmarshalError :: "string \<Rightarrow> error + string"
  UnmarshalRefData :: "string \<Rightarrow> error + refData list"
  UnmarshalMessage :: "string \<Rightarrow> error + string"

subsection \<open>Authentication\<close>

definition NewAuthentication :: "string \<Rightarrow> Authentication" where
  "NewAuthentication header =
     (let split = Split header CHR '' ''
      in if length split = 2 then \<lparr>Type = split ! 0, Credenteials = split ! 1\<rparr>
         else if length split = 1 then \<lparr>Type = [], Credenteials = split ! 0\<rparr>
         else zeroAuthentication)"

definition String :: "Authentication \<Rightarrow> string" where
  "String a = (if Type a \<noteq> [] then Type a @ '' '' @ Credenteials a else Credenteials a)"

text \<open>\<open>header\<close> is \<open>r.Header.Get("Authorization")\<close>, empty when the header is absent.\<close>

definition getAuthentication :: "string \<Rightarrow> error + Authentication" where
  "getAuthentication header =
     (if header = [] then Inl ErrNoToken
      else (let authentication = NewAuthentication header
            in if Type authentication = ''Bearer'' then Inr authentication
               else Inl ErrUnsupportedAuthentication))"

subsection \<open>Construction\<close>

text \<open>
  \<open>NewRBAC\<close>. The error of the second \<open>New\<close> is assigned to the blank identifier, so
  the second test reads the \<open>err\<close> of the first call, which is nil at that point.
\<close>

definition NewRBAC :: "Sys \<Rightarrow> RouterConfig \<Rightarrow> error + RBAC" where
  "NewRBAC sys cfg =
     (case New sys (LoginService cfg) of
        Inl err \<Rightarrow> Inl err
      | Inr ls \<Rightarrow>
          (let err = (None :: error option);
               mw = (case New sys (MemberWrapper cfg) of Inl _ \<Rightarrow> None | Inr c \<Rightarrow> Some c)
           in case err of
                Some e \<Rightarrow> Inl e
              | None \<Rightarrow> Inr \<lparr>loginService = Some ls, memberWrapper = mw\<rparr>))"

subsection \<open>Token exchange\<close>

text \<open>
  \<open>getUser\<close> returns the user, the status code, the error (\<open>None\<close> is nil), and here also
  the calls it issued.
\<close>

definition getUser ::
  "RBAC \<Rightarrow> Json \<Rightarrow> remote \<Rightarrow> Authentication \<Rightarrow> panic + (User \<times> int \<times> error option \<times> Request list)"
where
  "getUser rbac J net authentication =
     (let user = zeroUser
      in case MarshalToken J (Credenteials authentication) of
           Inl err \<Rightarrow> Inr (user, 0, Some err, [])
         | Inr body \<Rightarrow>
             (case loginService rbac of
                None \<Rightarrow> Inl NilPointerDereference
              | Some c \<Rightarrow>
                  (case Post c net ''/token'' [(''Authorization'', String authentication)] body of
                     (Inl err, rq) \<Rightarrow> Inr (user, 0, Some err, [rq])
                   | (Inr resp, rq) \<Rightarrow>
                       if StatusCode resp = 200 then
                         (case UnmarshalUser J (Body resp) of
                            ((info, exp, roles), e) \<Rightarrow>
                              (let user' = user\<lparr>Info := info, ExpTime := exp, Roles := roles\<rparr>
                               in case e of
                                    Some err \<Rightarrow> Inr (user', StatusCode resp, Some err, [rq])
                                  | None \<Rightarrow>
                                      Inr (user'\<lparr>Authentication := authentication\<rparr>,
                                           StatusCode resp, None, [rq])))
                       else
                         (case UnmarshalError J (Body resp) of
                            Inl err \<Rightarrow> Inr (user, StatusCode resp, Some err, [rq])
                          | Inr msg \<Rightarrow>
                              Inr (user, StatusCode resp, Some (errorString msg), [rq])))))"

subsection \<open>Enrichment\<close>

text \<open>
  A branch is given as what its goroutine has done when it signals \<open>wg.Done()\<close>: the user
  as it left it, the values it sent on the error channel, and the calls it issued.
\<close>

definition getBusinessLines ::
  "RBAC \<Rightarrow> Json \<Rightarrow> remote \<Rightarrow> User \<Rightarrow> panic + (User \<times> errResonse list \<times> Request list)"
where
  "getBusinessLines rbac J net user =
     (let errResponse = \<lparr>Code = 0, Message = []\<rparr>
      in case memberWrapper rbac of
           None \<Rightarrow> Inl NilPointerDereference
         | Some c \<Rightarrow>
             (case Get c net ''/v2/umvrefdata/businessline''
                     [(''Authorization'', String (Authentication user))] of
                (Inl err, rq) \<Rightarrow> Inr (user, [errResponse\<lparr>Message := Error err\<rparr>], [rq])
              | (Inr resp, rq) \<Rightarrow>
                  (let errResponse = errResponse\<lparr>Code := StatusCode resp\<rparr>
                   in if StatusCode resp = 200 then
                        (case UnmarshalRefData J (Body resp) of
                           Inl err \<Rightarrow> Inr (user, [errResponse\<lparr>Message := Error err\<rparr>], [rq])
                         | Inr response \<Rightarrow>
                             Inr (user\<lparr>BusinessLines := BusinessLines user @ map RefName response\<rparr>,
                                  [], [rq]))
                      else
                        (case UnmarshalMessage J (Body resp) of
                           Inl err \<Rightarrow> Inr (user, [errResponse\<lparr>Message := Error err\<rparr>], [rq])
                         | Inr msg \<Rightarrow> Inr (user, [errResponse\<lparr>Message := msg\<rparr>], [rq])))))"

text \<open>
  The loop of \<open>getBusinessUnits\<close> over the rows: it appends the units parsed so far and
  stops at the first row whose code \<open>Atoi\<close> rejects.
\<close>

fun appendUnits :: "refData list \<Rightarrow> int list \<Rightarrow> int list \<times> NumError option" where
  "appendUnits [] units = (units, None)"
| "appendUnits (r # rs) units =
     (case Atoi (RefCode r) of
        Inl err \<Rightarrow> (units, Some err)
      | Inr businessUnit \<Rightarrow> appendUnits rs (units @ [businessUnit]))"

definition getBusinessUnits ::
  "RBAC \<Rightarrow> Json \<Rightarrow> remote \<Rightarrow> User \<Rightarrow> panic + (User \<times> errResonse list \<times> Request list)"
where
  "getBusinessUnits rbac J net user =
     (let errResponse = \<lparr>Code = 0, Message = []\<rparr>
      in case memberWrapper rbac of
           None \<Rightarrow> Inl NilPointerDereference
         | Some c \<Rightarrow>
             (case Get c net ''/v2/umvrefdata/businessunit''
                     [(''Authorization'', String (Authentication user))] of
                (Inl err, rq) \<Rightarrow> Inr (user, [errResponse\<lparr>Message := Error err\<rparr>], [rq])
              | (Inr resp, rq) \<Rightarrow>
                  (let errResponse = errResponse\<lparr>Code := StatusCode resp\<rparr>
                   in if StatusCode resp = 200 then
                        (case UnmarshalRefData J (Body resp) of
                           Inl err \<Rightarrow> Inr (user, [errResponse\<lparr>Message := Error err\<rparr>], [rq])
                         | Inr response \<Rightarrow>
                             (case appendUnits response (BusinessUnits user) of
                                (units, Some err) \<Rightarrow>
                                  Inr (user\<lparr>BusinessUnits := units\<rparr>,
                                       [errResponse\<lparr>Message := NumError_Error err\<rparr>], [rq])
                              | (units, None) \<Rightarrow> Inr (user\<lparr>BusinessUnits := units\<rparr>, [], [rq])))
                      else
                        (case UnmarshalMessage J (Body resp) of
                           Inl err \<Rightarrow> Inr (user, [errResponse\<lparr>Message := Error err\<rparr>], [rq])
                         | Inr msg \<Rightarrow> Inr (user, [errResponse\<lparr>Message := msg\<rparr>], [rq])))))"

subsection \<open>The gate\<close>

definition reject :: "int \<Rightarrow> payload \<Rightarrow> Request list \<Rightarrow> Outcome" where
  "reject code body cs = \<lparr>written = Some (code, body), attached = None, nextCalls = 0, calls = cs\<rparr>"

text \<open>
  The decision on the collected errors, and the hand-over to the next handler when there
  are none.
\<close>

definition aggregate :: "User \<Rightarrow> errResonse list \<Rightarrow> Request list \<Rightarrow> Outcome" where
  "aggregate user errs cs =
     (if length errs > 0 then
        (let err = errs ! 0
         in if IsServerError (Code err) then reject 502 (ErrorResponse (Message err)) cs
            else if Code err > 0
            then reject 401 (UnauthorizedResponse UnauthorizedMSG (Message err)) cs
            else reject 500 (ErrorResponse (Message err)) cs)
      else \<lparr>written = None, attached = Some user, nextCalls = 1, calls = cs\<rparr>)"

text \<open>
  The two branches run concurrently. Each writes one field of the user of its own and
  reads only \<open>Authentication\<close>, which neither writes, so the user after the barrier is
  the same in every schedule and is computed here by running one branch after the other.
  Each branch sends at most one error; the collector appends them in the order in which
  it receives them, and \<open>unitsFirst\<close> says which branch's error it receives first when
  both send one.
\<close>

definition fanOut ::
  "RBAC \<Rightarrow> Json \<Rightarrow> remote \<Rightarrow> bool \<Rightarrow> User \<Rightarrow> panic + (User \<times> errResonse list \<times> Request list)"
where
  "fanOut rbac J net unitsFirst user =
     (case getBusinessLines rbac J net user of
        Inl p \<Rightarrow> Inl p
      | Inr (user1, lineErrs, calls1) \<Rightarrow>
          (case getBusinessUnits rbac J net user1 of
             Inl p \<Rightarrow> Inl p
           | Inr (user2, unitErrs, calls2) \<Rightarrow>
               Inr (user2,
                    (if unitsFirst then unitErrs @ lineErrs else lineErrs @ unitErrs),
                    calls1 @ calls2)))"

definition Middleware :: "RBAC \<Rightarrow> Json \<Rightarrow> remote \<Rightarrow> bool \<Rightarrow> string \<Rightarrow> panic + Outcome" where
  "Middleware rbac J net unitsFirst header =
     (case getAuthentication header of
        Inl err \<Rightarrow> Inr (reject 401 (UnauthorizedResponse UnauthorizedMSG (Error err)) [])
      | Inr authentication \<Rightarrow>
          (case getUser rbac J net authentication of
             Inl p \<Rightarrow> Inl p
           | Inr (user, code, err, calls0) \<Rightarrow>
               if code = 200 then
                 (case fanOut rbac J net unitsFirst user of
                    Inl p \<Rightarrow> Inl p
                  | Inr (user', errs, calls1) \<Rightarrow> Inr (aggregate user' errs (calls0 @ calls1)))
               else if code = 401 then
                 (case err of
                    None \<Rightarrow> Inl NilPointerDereference
                  | Some e \<Rightarrow>
                      Inr (reject 401 (UnauthorizedResponse UnauthorizedMSG (Error e)) calls0))
               else
                 (case err of
                    None \<Rightarrow> Inl NilPointerDereference
                  | Some e \<Rightarrow> Inr (reject 502 (ErrorResponse (Error e)) calls0))))"

section \<open>Test doubles\<close>

text \<open>
  A client without default headers, a transport that gives the same answer to every
  attempt, and services told apart by the path of the request.
\<close>

definition plainClient :: "string \<Rightarrow> int \<Rightarrow> Client" where
  "plainClient base n =
     \<lparr>client = \<lparr>transport = \<lparr>TLS_InsecureSkipVerify = False, TLS_RootCAs = None,
                  Transport_MaxConnsPerHost = 0, Transport_MaxIdleConns = 0,
                  Transport_MaxIdleConnsPerHost = 0, Transport_IdleConnTimeout = 0\<rparr>,
                Client_Timeout = 0\<rparr>,
      url = base, headers = [], maxRetry = n, retryDelay = 10 * Millisecond\<rparr>"

definition reply :: "int \<Rightarrow> string \<Rightarrow> Response" where
  "reply code b = \<lparr>Status = [], StatusCode = code, Body = b\<rparr>"

definition answer :: "int \<Rightarrow> string \<Rightarrow> roundTrip" where
  "answer code b = (\<lambda>i. Inr (reply code b))"

definition services :: "roundTrip \<Rightarrow> roundTrip \<Rightarrow> roundTrip \<Rightarrow> remote" where
  "services login lines units =
     (\<lambda>rq. if Path rq = ''/token'' then login
           else if Path rq = ''/v2/umvrefdata/businessline'' then lines
           else units)"

definition rbac0 :: RBAC where
  "rbac0 = \<lparr>loginService = Some (plainClient ''http://login'' 0),
            memberWrapper = Some (plainClient ''http://members'' 0)\<rparr>"

text \<open>The bodies of the examples, and what \<open>encoding/json\<close> makes of them.\<close>

definition userBody :: string where
  \<open>userBody = ''{"userInfo":[],"expTime":1893456000,"chpRoles":["admin"]}''\<close>

definition badTokenBody :: string where
  \<open>badTokenBody = ''{"error":"bad token"}''\<close>

definition eastBody :: string where
  \<open>eastBody = ''{"refData":[{"code":"1","name":"East"}]}''\<close>

definition unit42Body :: string where
  \<open>unit42Body = ''{"refData":[{"code":"42","name":"Unit42"}]}''\<close>

definition abcBody :: string where
  \<open>abcBody = ''{"refData":[{"code":"abc"}]}''\<close>

definition downBody :: string where
  \<open>downBody = ''{"message":"down"}''\<close>

text \<open>
  A table of these bodies. Any other body is answered as the empty body is, which is
  not JSON.
\<close>

definition tableJson :: Json where
  \<open>tableJson =
     \<lparr>MarshalToken = (\<lambda>tok. Inr (''{"token":"'' @ tok @ ''"}'')),
      UnmarshalUser = (\<lambda>b.
        if b = userBody then (([], 1893456000, [''admin'']), None)
        else (([], 0, []), Some (errorString ''unexpected end of JSON input''))),
      UnmarshalError = (\<lambda>b.
        if b = badTokenBody then Inr ''bad token''
        else Inl (errorString ''unexpected end of JSON input'')),
      UnmarshalRefData = (\<lambda>b.
        if b = eastBody then Inr [\<lparr>RefCode = ''1'', RefName = ''East''\<rparr>]
        else if b = unit42Body then Inr [\<lparr>RefCode = ''42'', RefName = ''Unit42''\<rparr>]
        else if b = abcBody then Inr [\<lparr>RefCode = ''abc'', RefName = []\<rparr>]
        else Inl (errorString ''unexpected end of JSON input'')),
      UnmarshalMessage = (\<lambda>b.
        if b = downBody then Inr ''down''
        else Inl (errorString ''unexpected end of JSON input''))\<rparr>\<close>

text \<open>
  A system in which \<open>url.Parse\<close> rejects the empty scheme of \<open>":"\<close> and accepts every
  other URL, and no CA bundle can be read.
\<close>

definition sys0 :: Sys where
  \<open>sys0 =
     \<lparr>Parse = (\<lambda>u. if u = '':'' then Inl (errorString ''parse ":": missing protocol scheme'')
                   else Inr u),
      ReadFile = (\<lambda>p. Inl (errorString ''no such file or directory'')),
      AppendCertsFromPEM = (\<lambda>pem. False),
      CanonicalMIMEHeaderKey = (\<lambda>k. k)\<rparr>\<close>

definition conf0 :: "string \<Rightarrow> Config" where
  "conf0 u =
     \<lparr>URL = u, Timeout = 0, IdleConnTimeout = 0, InsecureSkipVerify = False,
      MaxConnsPerHost = 0, MaxIdleConns = 0, MaxIdleConnsPerHost = 0, Headers = [],
      MaxRetry = 0, RetryDelay = 10 * Millisecond, RootCAs = []\<rparr>"

text \<open>
  Transports for the retry policy: two answers 500 and then 200; an answer 500 and then a
  canceled context.
\<close>

definition flaky :: roundTrip where
  "flaky i = (if i < 2 then Inr (reply 500 []) else Inr (reply 200 ''ok''))"

definition canceledAfterFirst :: roundTrip where
  "canceledAfterFirst i = (if i = 0 then Inr (reply 500 []) else Inl Canceled)"

text \<open>
  The requests that the header \<open>Bearer tok\<close> leads to, and the user the login service
  describes in \<open>userBody\<close>.
\<close>

definition tokenRequest :: Request where
  \<open>tokenRequest =
     \<lparr>Method = ''POST'', Base = ''http://login'', Path = ''/token'',
      Header = [(''Authorization'', ''Bearer tok'')], ReqBody = ''{"token":"tok"}''\<rparr>\<close>

definition refRequest :: "string \<Rightarrow> string \<Rightarrow> Request" where
  "refRequest rel auth =
     \<lparr>Method = ''GET'', Base = ''http://members'', Path = rel,
      Header = [(''Authorization'', auth)], ReqBody = []\<rparr>"

definition tokUser :: User where
  "tokUser = \<lparr>Authentication = \<lparr>Type = ''Bearer'', Credenteials = ''tok''\<rparr>, Info = [],
              ExpTime = 1893456000, Roles = [''admin''], BusinessLines = [], BusinessUnits = []\<rparr>"

section \<open>Authentication parsing\<close>

lemma Split_not_Nil: "Split s sep \<noteq> []"
  by (induction s) (auto split: list.splits)

lemma length_Split: "length (Split s sep) = Suc (count_list s sep)"
  by (induction s) (auto split: list.splits simp: Split_not_Nil)

lemma Split_no_sep: "sep \<notin> set s \<Longrightarrow> Split s sep = [s]"
  by (induction s) auto

lemma Split_append: "sep \<notin> set a \<Longrightarrow> Split (a @ sep # b) sep = a # Split b sep"
  by (induction a) auto

lemma NewAuthentication_many:
  "1 < count_list header CHR '' '' \<Longrightarrow> NewAuthentication header = zeroAuthentication"
  by (simp add: NewAuthentication_def Let_def length_Split)

lemma String_spaces:
  "Type a \<noteq> [] \<Longrightarrow>
   count_list (String a) CHR '' '' =
     Suc (count_list (Type a) CHR '' '' + count_list (Credenteials a) CHR '' '')"
  by (simp add: String_def)

text \<open>
  C6, as amended. A header value with more than one space splits into three or more parts,
  and \<open>NewAuthentication\<close> then returns the zero Authentication: the scheme and the
  credential are both empty, and no token of the header is kept.
\<close>

theorem parse_many_spaces:
  "1 < count_list header CHR '' '' \<Longrightarrow>
   NewAuthentication header = \<lparr>Type = [], Credenteials = []\<rparr>"
  by (simp add: NewAuthentication_many zeroAuthentication_def)

theorem parse_many_spaces_witness:
  "1 < count_list ''Bearer abc def'' CHR '' ''
   \<and> NewAuthentication ''Bearer abc def'' = \<lparr>Type = [], Credenteials = []\<rparr>"
  using parse_many_spaces [of "''Bearer abc def''"] by simp

text \<open>
  C6 as stated fails: the header \<open>Bearer abc def\<close> has two spaces and three tokens, and
  its parse is not the Authentication made of the first two.
\<close>

theorem parse_truncation_counterexample:
  "1 < count_list ''Bearer abc def'' CHR '' ''
   \<and> Split ''Bearer abc def'' CHR '' '' = [''Bearer'', ''abc'', ''def'']
   \<and> NewAuthentication ''Bearer abc def'' \<noteq> \<lparr>Type = ''Bearer'', Credenteials = ''abc''\<rparr>"
  by (simp add: NewAuthentication_def zeroAuthentication_def)

text \<open>
  C7, as amended. Parsing is a function of the header value. For an Authentication with a
  non-empty scheme, rendering and parsing again gives the Authentication back exactly when
  neither its scheme nor its credential contains a space.
\<close>

theorem round_trip:
  "(\<forall>h h'. h = h' \<longrightarrow> NewAuthentication h = NewAuthentication h')
   \<and> (Type a \<noteq> [] \<longrightarrow>
        (NewAuthentication (String a) = a)
          = (CHR '' '' \<notin> set (Type a) \<and> CHR '' '' \<notin> set (Credenteials a)))"
proof (intro conjI impI)
  show "\<forall>h h'. h = h' \<longrightarrow> NewAuthentication h = NewAuthentication h'" by simp
next
  assume scheme: "Type a \<noteq> []"
  show "(NewAuthentication (String a) = a)
          = (CHR '' '' \<notin> set (Type a) \<and> CHR '' '' \<notin> set (Credenteials a))"
  proof (cases "CHR '' '' \<notin> set (Type a) \<and> CHR '' '' \<notin> set (Credenteials a)")
    case True
    then have "Split (String a) CHR '' '' = [Type a, Credenteials a]"
      using scheme by (simp add: String_def Split_append Split_no_sep)
    then have "NewAuthentication (String a) = a"
      by (simp add: NewAuthentication_def)
    with True show ?thesis by simp
  next
    case False
    then have "count_list (Type a) CHR '' '' \<noteq> 0 \<or> count_list (Credenteials a) CHR '' '' \<noteq> 0"
      unfolding count_list_0_iff by blast
    then have "0 < count_list (Type a) CHR '' '' + count_list (Credenteials a) CHR '' ''"
      by arith
    then have "1 < count_list (String a) CHR '' ''"
      using String_spaces [OF scheme] by simp
    then have "Type (NewAuthentication (String a)) = []"
      by (simp add: NewAuthentication_many zeroAuthentication_def)
    then have "NewAuthentication (String a) \<noteq> a"
      using scheme by auto
    with False show ?thesis by simp
  qed
qed

theorem round_trip_witness:
  "Type \<lparr>Type = ''Bearer'', Credenteials = ''tok''\<rparr> \<noteq> []
   \<and> NewAuthentication (String \<lparr>Type = ''Bearer'', Credenteials = ''tok''\<rparr>)
       = \<lparr>Type = ''Bearer'', Credenteials = ''tok''\<rparr>"
  using round_trip [of "\<lparr>Type = ''Bearer'', Credenteials = ''tok''\<rparr>"] by simp

text \<open>
  C7 as stated fails: the scheme \<open>Bearer\<close> is not empty, and the credential \<open>a b\<close>
  does not survive the round trip.
\<close>

theorem round_trip_counterexample:
  "Type \<lparr>Type = ''Bearer'', Credenteials = ''a b''\<rparr> \<noteq> []
   \<and> NewAuthentication (String \<lparr>Type = ''Bearer'', Credenteials = ''a b''\<rparr>)
       \<noteq> \<lparr>Type = ''Bearer'', Credenteials = ''a b''\<rparr>"
  by (simp add: NewAuthentication_def String_def zeroAuthentication_def)

section \<open>The retry policy\<close>

lemma retry_loop_stop:
  assumes "t (attempts s + k) = Inr r" "\<not> inRange (StatusCode r) 500 600"
    and "retries + int k < maxRetry c"
    and "\<forall>j<k. \<not> (\<exists>r'. t (attempts s + j) = Inr r' \<and> \<not> inRange (StatusCode r') 500 600)"
  shows "retry_loop c t retries prev s =
           (Inr r, s\<lparr>attempts := attempts s + k + 1,
                    sleeps := sleeps s @ replicate (k + 1) (retryDelay c)\<rparr>)"
  using assms
proof (induction k arbitrary: retries prev s)
  case 0
  then show ?case
    by (subst retry_loop.simps) (simp add: handle_def Sleep_def)
next
  case (Suc k)
  let ?s1 = "s\<lparr>sleeps := sleeps s @ [retryDelay c], attempts := Suc (attempts s)\<rparr>"
  have first: "\<not> (\<exists>r'. t (attempts s) = Inr r' \<and> \<not> inRange (StatusCode r') 500 600)"
    using Suc.prems(4) by (metis add.right_neutral zero_less_Suc)
  have rest: "retry_loop c t (retries + 1) p ?s1 =
           (Inr r, ?s1\<lparr>attempts := attempts ?s1 + k + 1,
                    sleeps := sleeps ?s1 @ replicate (k + 1) (retryDelay c)\<rparr>)" for p
  proof (rule Suc.IH)
    show "t (attempts ?s1 + k) = Inr r" using Suc.prems(1) by simp
    show "\<not> inRange (StatusCode r) 500 600" by fact
    show "retries + 1 + int k < maxRetry c" using Suc.prems(3) by simp
    show "\<forall>j<k. \<not> (\<exists>r'. t (attempts ?s1 + j) = Inr r' \<and> \<not> inRange (StatusCode r') 500 600)"
    proof (intro allI impI)
      fix j assume "j < k"
      then have "Suc j < Suc k" by simp
      with Suc.prems(4) have "\<not> (\<exists>r'. t (attempts s + Suc j) = Inr r' \<and> \<not> inRange (StatusCode r') 500 600)"
        by blast
      then show "\<not> (\<exists>r'. t (attempts ?s1 + j) = Inr r' \<and> \<not> inRange (StatusCode r') 500 600)"
        by simp
    qed
  qed
  have lt: "retries < maxRetry c" using Suc.prems(3) by simp
  show ?case
  proof (cases "t (attempts s)")
    case (Inl e)
    then show ?thesis
      using lt rest by (subst retry_loop.simps) (simp add: handle_def Sleep_def replicate_app_Cons_same)
  next
    case (Inr r')
    then have "inRange (StatusCode r') 500 600" using first by simp
    then show ?thesis
      using Inr lt rest by (subst retry_loop.simps) (simp add: handle_def Sleep_def replicate_app_Cons_same)
  qed
qed

lemma retry_loop_bound:
  assumes "retry_loop c t retries prev s = (res, s')"
  shows "attempts s \<le> attempts s'
       \<and> int (attempts s') \<le> int (attempts s) + max 0 (maxRetry c - retries)
       \<and> sleeps s' = sleeps s @ replicate (attempts s' - attempts s) (retryDelay c)
       \<and> res = (if attempts s' = attempts s then prev else t (attempts s' - 1))"
  using assms
proof (induction c t retries prev s rule: retry_loop.induct)
  case (1 c t retries prev s)
  show ?case
  proof (cases "retries < maxRetry c")
    case False
    then show ?thesis using "1.prems" by (subst (asm) retry_loop.simps) auto
  next
    case True
    let ?s1 = "s\<lparr>sleeps := sleeps s @ [retryDelay c], attempts := Suc (attempts s)\<rparr>"
    have h: "handle t (Sleep (retryDelay c) s) = (t (attempts s), ?s1)"
      by (simp add: handle_def Sleep_def)
    show ?thesis
    proof (cases "t (attempts s)")
      case (Inl e)
      then have eq: "retry_loop c t (retries + 1) (Inl e) ?s1 = (res, s')"
        using "1.prems" True h by (subst (asm) retry_loop.simps) simp
      have "attempts ?s1 \<le> attempts s'
       \<and> int (attempts s') \<le> int (attempts ?s1) + max 0 (maxRetry c - (retries + 1))
       \<and> sleeps s' = sleeps ?s1 @ replicate (attempts s' - attempts ?s1) (retryDelay c)
       \<and> res = (if attempts s' = attempts ?s1 then Inl e else t (attempts s' - 1))"
        using "1.IH"(1) [OF True _ _ eq] h Inl by simp
      then show ?thesis using True Inl
        by (auto simp: replicate_app_Cons_same Suc_diff_le simp flip: replicate_Suc)
    next
      case (Inr r)
      show ?thesis
      proof (cases "inRange (StatusCode r) 500 600")
        case False
        then have "(res, s') = (Inr r, ?s1)"
          using "1.prems" True h Inr by (subst (asm) retry_loop.simps) simp
        then show ?thesis using True Inr by auto
      next
        case five: True
        then have eq: "retry_loop c t (retries + 1) (Inr r) ?s1 = (res, s')"
          using "1.prems" True h Inr by (subst (asm) retry_loop.simps) simp
        have "attempts ?s1 \<le> attempts s'
         \<and> int (attempts s') \<le> int (attempts ?s1) + max 0 (maxRetry c - (retries + 1))
         \<and> sleeps s' = sleeps ?s1 @ replicate (attempts s' - attempts ?s1) (retryDelay c)
         \<and> res = (if attempts s' = attempts ?s1 then Inr r else t (attempts s' - 1))"
          using "1.IH"(2) [OF True _ _ _ eq] h Inr five by simp
        then show ?thesis using True Inr
          by (auto simp: replicate_app_Cons_same Suc_diff_le simp flip: replicate_Suc)
      qed
    qed
  qed
qed

lemma retry_loop_exhaust:
  assumes "\<forall>j<n. \<not> (\<exists>r'. t (attempts s + j) = Inr r' \<and> \<not> inRange (StatusCode r') 500 600)"
    and "n = nat (maxRetry c - retries)"
  shows "attempts (snd (retry_loop c t retries prev s)) = attempts s + n"
  using assms
proof (induction n arbitrary: retries prev s)
  case 0
  then show ?case by (subst retry_loop.simps) simp
next
  case (Suc n)
  let ?s1 = "s\<lparr>sleeps := sleeps s @ [retryDelay c], attempts := Suc (attempts s)\<rparr>"
  have lt: "retries < maxRetry c" using Suc.prems(2) by simp
  have first: "\<not> (\<exists>r'. t (attempts s) = Inr r' \<and> \<not> inRange (StatusCode r') 500 600)"
    using Suc.prems(1) by (metis add.right_neutral zero_less_Suc)
  have rest: "attempts (snd (retry_loop c t (retries + 1) p ?s1)) = attempts ?s1 + n" for p
  proof (rule Suc.IH)
    show "n = nat (maxRetry c - (retries + 1))" using Suc.prems(2) by simp
    show "\<forall>j<n. \<not> (\<exists>r'. t (attempts ?s1 + j) = Inr r' \<and> \<not> inRange (StatusCode r') 500 600)"
    proof (intro allI impI)
      fix j assume "j < n"
      then have "Suc j < Suc n" by simp
      with Suc.prems(1) have "\<not> (\<exists>r'. t (attempts s + Suc j) = Inr r' \<and> \<not> inRange (StatusCode r') 500 600)"
        by blast
      then show "\<not> (\<exists>r'. t (attempts ?s1 + j) = Inr r' \<and> \<not> inRange (StatusCode r') 500 600)"
        by simp
    qed
  qed
  show ?case
  proof (cases "t (attempts s)")
    case (Inl e)
    then show ?thesis
      using lt rest by (subst retry_loop.simps) (simp add: handle_def Sleep_def)
  next
    case (Inr r')
    then have "inRange (StatusCode r') 500 600" using first by simp
    then show ?thesis
      using Inr lt rest by (subst retry_loop.simps) (simp add: handle_def Sleep_def)
  qed
qed

lemma do_no_retry:
  "maxRetry c \<le> 0 \<Longrightarrow> do c t s = (t (attempts s), s\<lparr>attempts := Suc (attempts s)\<rparr>)"
  by (simp add: do_def handle_def)

lemma do_shape:
  assumes "do c t call_start = (res, s)"
  shows "1 \<le> attempts s \<and> int (attempts s) \<le> 1 + max 0 (maxRetry c)
       \<and> sleeps s = replicate (attempts s - 1) (retryDelay c)
       \<and> res = t (attempts s - 1)"
proof (cases "do c t call_start = (t 0, call_start\<lparr>attempts := 1\<rparr>)")
  case True
  then show ?thesis using assms by (auto simp: call_start_def)
next
  case False
  then have loop: "retry_loop c t 0 (t 0) (call_start\<lparr>attempts := 1\<rparr>) = (res, s)"
    using assms by (auto simp: do_def handle_def call_start_def split: if_splits)
  from retry_loop_bound [OF loop] show ?thesis
    by (auto simp: call_start_def)
qed


lemma retry_loop_progress:
  assumes "retries < maxRetry c" "retry_loop c t retries prev s = (res, s')"
  shows "attempts s < attempts s'"
proof -
  let ?s1 = "s\<lparr>sleeps := sleeps s @ [retryDelay c], attempts := Suc (attempts s)\<rparr>"
  have h: "handle t (Sleep (retryDelay c) s) = (t (attempts s), ?s1)"
    by (simp add: handle_def Sleep_def)
  have "s' = ?s1 \<or> (\<exists>p. retry_loop c t (retries + 1) p ?s1 = (res, s'))"
    using assms h by (subst (asm) retry_loop.simps) (auto split: sum.splits if_splits)
  then show ?thesis
  proof
    assume "s' = ?s1" then show ?thesis by simp
  next
    assume "\<exists>p. retry_loop c t (retries + 1) p ?s1 = (res, s')"
    then obtain p where "retry_loop c t (retries + 1) p ?s1 = (res, s')" ..
    from retry_loop_bound [OF this] show ?thesis by simp
  qed
qed

lemma do_enters_loop:
  assumes "(\<exists>e. t 0 = Inl e \<and> e \<noteq> Canceled \<and> e \<noteq> DeadlineExceeded)
           \<or> (\<exists>r. t 0 = Inr r \<and> inRange (StatusCode r) 500 600)"
    and "0 < maxRetry c"
  shows "do c t call_start = retry_loop c t 0 (t 0) (call_start\<lparr>attempts := 1\<rparr>)"
  using assms by (auto simp: do_def handle_def call_start_def)

text \<open>
  C5. From the state of a fresh call, \<open>do\<close> makes at least one attempt and at most
  \<open>maxRetry\<close> more, sleeps \<open>retryDelay\<close> before each attempt after the first, and
  returns the outcome of its last attempt. With \<open>maxRetry = 0\<close> it makes exactly one
  attempt, whatever the outcome. When the first outcome is retryable (a transport error
  other than cancellation or deadline expiry, or a 5xx response) and \<open>maxRetry > 0\<close>, it
  retries; it stops at the first later attempt (within \<open>maxRetry\<close>) that yields a non-5xx
  response and returns that response; when no such attempt occurs it makes all of the
  \<open>maxRetry\<close> additional attempts. With \<open>maxRetry = 2\<close> and the outcomes 500, 500, 200 it
  returns the 200 response after exactly three attempts.
\<close>

theorem retry_policy:
  "case do c t call_start of
     (res, s) \<Rightarrow>
       (maxRetry c = 0 \<longrightarrow> res = t 0 \<and> attempts s = 1 \<and> sleeps s = [])
     \<and> 1 \<le> attempts s \<and> int (attempts s) \<le> 1 + max 0 (maxRetry c)
     \<and> sleeps s = replicate (attempts s - 1) (retryDelay c)
     \<and> res = t (attempts s - 1)
     \<and> (((\<exists>e. t 0 = Inl e \<and> e \<noteq> Canceled \<and> e \<noteq> DeadlineExceeded)
           \<or> (\<exists>r. t 0 = Inr r \<and> inRange (StatusCode r) 500 600))
          \<and> 0 < maxRetry c \<longrightarrow>
            2 \<le> attempts s
          \<and> (\<forall>k r. 1 \<le> k \<and> int k \<le> maxRetry c
                 \<and> t k = Inr r \<and> \<not> inRange (StatusCode r) 500 600
                 \<and> (\<forall>j. 1 \<le> j \<and> j < k \<longrightarrow>
                        \<not> (\<exists>r'. t j = Inr r' \<and> \<not> inRange (StatusCode r') 500 600))
                 \<longrightarrow> res = Inr r \<and> attempts s = k + 1)
          \<and> ((\<forall>j. 1 \<le> j \<and> int j \<le> maxRetry c \<longrightarrow>
                   \<not> (\<exists>r'. t j = Inr r' \<and> \<not> inRange (StatusCode r') 500 600))
               \<longrightarrow> attempts s = 1 + nat (maxRetry c)))
     \<and> (\<forall>r0 r1 r2. maxRetry c = 2
            \<and> t 0 = Inr r0 \<and> StatusCode r0 = 500
            \<and> t 1 = Inr r1 \<and> StatusCode r1 = 500
            \<and> t 2 = Inr r2 \<and> StatusCode r2 = 200
            \<longrightarrow> res = Inr r2 \<and> attempts s = 3 \<and> sleeps s = [retryDelay c, retryDelay c])"
proof -
  obtain res s where run: "do c t call_start = (res, s)" by (cases "do c t call_start")
  let ?s1 = "call_start\<lparr>attempts := 1\<rparr>"
  let ?stops = "\<lambda>j. \<exists>r'. t j = Inr r' \<and> \<not> inRange (StatusCode r') 500 600"
  have zero: "maxRetry c = 0 \<longrightarrow> res = t 0 \<and> attempts s = 1 \<and> sleeps s = []"
    using run do_no_retry [of c t call_start] by (auto simp: call_start_def)
  have shape: "1 \<le> attempts s \<and> int (attempts s) \<le> 1 + max 0 (maxRetry c)
       \<and> sleeps s = replicate (attempts s - 1) (retryDelay c)
       \<and> res = t (attempts s - 1)"
    using do_shape [OF run] .
  have retry: "2 \<le> attempts s
          \<and> (\<forall>k r. 1 \<le> k \<and> int k \<le> maxRetry c
                 \<and> t k = Inr r \<and> \<not> inRange (StatusCode r) 500 600
                 \<and> (\<forall>j. 1 \<le> j \<and> j < k \<longrightarrow> \<not> ?stops j)
                 \<longrightarrow> res = Inr r \<and> attempts s = k + 1)
          \<and> ((\<forall>j. 1 \<le> j \<and> int j \<le> maxRetry c \<longrightarrow> \<not> ?stops j)
               \<longrightarrow> attempts s = 1 + nat (maxRetry c))"
    if first: "(\<exists>e. t 0 = Inl e \<and> e \<noteq> Canceled \<and> e \<noteq> DeadlineExceeded)
           \<or> (\<exists>r. t 0 = Inr r \<and> inRange (StatusCode r) 500 600)"
      and pos: "0 < maxRetry c"
  proof -
    have loop: "retry_loop c t 0 (t 0) ?s1 = (res, s)"
      using do_enters_loop [of t c] first pos run by simp
    have a: "2 \<le> attempts s"
      using retry_loop_progress [OF pos loop] by simp
    have b: "res = Inr r \<and> attempts s = k + 1"
      if k: "1 \<le> k" "int k \<le> maxRetry c" and r: "t k = Inr r" "\<not> inRange (StatusCode r) 500 600"
        and before: "\<forall>j. 1 \<le> j \<and> j < k \<longrightarrow> \<not> ?stops j" for k r
    proof -
      have "retry_loop c t 0 (t 0) ?s1 =
              (Inr r, ?s1\<lparr>attempts := attempts ?s1 + (k - 1) + 1,
                          sleeps := sleeps ?s1 @ replicate ((k - 1) + 1) (retryDelay c)\<rparr>)"
      proof (rule retry_loop_stop)
        show "t (attempts ?s1 + (k - 1)) = Inr r" using k r by simp
        show "\<not> inRange (StatusCode r) 500 600" by fact
        show "0 + int (k - 1) < maxRetry c" using k by linarith
        show "\<forall>j<k - 1. \<not> (\<exists>r'. t (attempts ?s1 + j) = Inr r' \<and> \<not> inRange (StatusCode r') 500 600)"
        proof (intro allI impI)
          fix j assume "j < k - 1"
          then have "1 \<le> Suc j \<and> Suc j < k" by linarith
          with before have "\<not> ?stops (Suc j)" by blast
          then show "\<not> (\<exists>r'. t (attempts ?s1 + j) = Inr r' \<and> \<not> inRange (StatusCode r') 500 600)"
            by simp
        qed
      qed
      with loop k show ?thesis by auto
    qed
    have c: "attempts s = 1 + nat (maxRetry c)"
      if never: "\<forall>j. 1 \<le> j \<and> int j \<le> maxRetry c \<longrightarrow> \<not> ?stops j"
    proof -
      have "attempts (snd (retry_loop c t 0 (t 0) ?s1)) = attempts ?s1 + nat (maxRetry c)"
      proof (rule retry_loop_exhaust)
        show "nat (maxRetry c) = nat (maxRetry c - 0)" by simp
        show "\<forall>j<nat (maxRetry c). \<not> (\<exists>r'. t (attempts ?s1 + j) = Inr r' \<and> \<not> inRange (StatusCode r') 500 600)"
        proof (intro allI impI)
          fix j assume "j < nat (maxRetry c)"
          then have "1 \<le> Suc j \<and> int (Suc j) \<le> maxRetry c" by linarith
          with never have "\<not> ?stops (Suc j)" by blast
          then show "\<not> (\<exists>r'. t (attempts ?s1 + j) = Inr r' \<and> \<not> inRange (StatusCode r') 500 600)"
            by simp
        qed
      qed
      with loop show ?thesis by simp
    qed
    from a b c show ?thesis by blast
  qed
  have example: "res = Inr r2 \<and> attempts s = 3 \<and> sleeps s = [retryDelay c, retryDelay c]"
    if ex: "maxRetry c = 2" "t 0 = Inr r0" "StatusCode r0 = 500" "t 1 = Inr r1" "StatusCode r1 = 500"
      "t 2 = Inr r2" "StatusCode r2 = 200" for r0 r1 r2
  proof -
    have first: "(\<exists>e. t 0 = Inl e \<and> e \<noteq> Canceled \<and> e \<noteq> DeadlineExceeded)
           \<or> (\<exists>r. t 0 = Inr r \<and> inRange (StatusCode r) 500 600)"
      using ex by (simp add: inRange_def)
    have pos: "0 < maxRetry c" using ex by simp
    have "\<forall>j. 1 \<le> j \<and> j < 2 \<longrightarrow> \<not> ?stops j"
    proof (intro allI impI)
      fix j :: nat assume "1 \<le> j \<and> j < 2"
      then have "j = 1" by simp
      then show "\<not> ?stops j" using ex by (simp add: inRange_def)
    qed
    moreover have "1 \<le> (2::nat) \<and> int 2 \<le> maxRetry c \<and> t 2 = Inr r2
        \<and> \<not> inRange (StatusCode r2) 500 600"
      using ex by (simp add: inRange_def)
    moreover have "\<forall>k r. 1 \<le> k \<and> int k \<le> maxRetry c
                 \<and> t k = Inr r \<and> \<not> inRange (StatusCode r) 500 600
                 \<and> (\<forall>j. 1 \<le> j \<and> j < k \<longrightarrow> \<not> ?stops j)
                 \<longrightarrow> res = Inr r \<and> attempts s = k + 1"
      using retry [OF first pos] by blast
    ultimately have got: "res = Inr r2 \<and> attempts s = 2 + 1"
      by blast
    then have three: "attempts s = 3" by simp
    have "sleeps s = replicate (attempts s - 1) (retryDelay c)"
      using shape by blast
    then have "sleeps s = [retryDelay c, retryDelay c]"
      unfolding three by (simp add: numeral_2_eq_2)
    with got three show ?thesis by blast
  qed
  show ?thesis
    unfolding run using zero shape retry example by simp blast
qed

theorem retry_policy_witness:
  "do (plainClient ''http://login'' 2) flaky call_start =
     (Inr (reply 200 ''ok''), \<lparr>attempts = 3, sleeps = [10 * Millisecond, 10 * Millisecond]\<rparr>)"
proof -
  let ?c = "plainClient ''http://login'' 2"
  obtain res s where run: "do ?c flaky call_start = (res, s)"
    by (cases "do ?c flaky call_start")
  have "\<forall>r0 r1 r2. maxRetry ?c = 2
            \<and> flaky 0 = Inr r0 \<and> StatusCode r0 = 500
            \<and> flaky 1 = Inr r1 \<and> StatusCode r1 = 500
            \<and> flaky 2 = Inr r2 \<and> StatusCode r2 = 200
            \<longrightarrow> res = Inr r2 \<and> attempts s = 3 \<and> sleeps s = [retryDelay ?c, retryDelay ?c]"
    using retry_policy [of ?c flaky] unfolding run prod.case by blast
  moreover have "maxRetry ?c = 2
            \<and> flaky 0 = Inr (reply 500 []) \<and> StatusCode (reply 500 []) = 500
            \<and> flaky 1 = Inr (reply 500 []) \<and> StatusCode (reply 500 []) = 500
            \<and> flaky 2 = Inr (reply 200 ''ok'') \<and> StatusCode (reply 200 ''ok'') = 200"
    by (simp add: flaky_def plainClient_def reply_def)
  ultimately have "res = Inr (reply 200 ''ok'') \<and> attempts s = 3
      \<and> sleeps s = [retryDelay ?c, retryDelay ?c]"
    by blast
  then have "res = Inr (reply 200 ''ok'')
      \<and> s = \<lparr>attempts = 3, sleeps = [10 * Millisecond, 10 * Millisecond]\<rparr>"
    by (cases s) (simp add: plainClient_def)
  with run show ?thesis by simp
qed

text \<open>
  C4 does not hold of the code. With \<open>maxRetry = 2\<close>, a call whose first attempt is
  answered 500 and whose context is then canceled makes three attempts: inside the loop an
  error only leads to \<open>continue\<close>. A call whose every attempt ends in deadline expiry
  makes three attempts as well. Only a cancellation of the first attempt ends the call.
\<close>

theorem cancellation_retried:
  "do (plainClient ''http://login'' 2) canceledAfterFirst call_start =
     (Inl Canceled, \<lparr>attempts = 3, sleeps = [10 * Millisecond, 10 * Millisecond]\<rparr>)
   \<and> do (plainClient ''http://login'' 2) (\<lambda>i. Inl DeadlineExceeded) call_start =
     (Inl DeadlineExceeded, \<lparr>attempts = 3, sleeps = [10 * Millisecond, 10 * Millisecond]\<rparr>)
   \<and> do (plainClient ''http://login'' 2) (\<lambda>i. Inl Canceled) call_start =
     (Inl Canceled, \<lparr>attempts = 1, sleeps = []\<rparr>)"
  by (simp add: do_def handle_def Sleep_def retry_loop.simps plainClient_def canceledAfterFirst_def
      reply_def call_start_def inRange_def)

section \<open>The gate\<close>

subsection \<open>Evaluation of the examples\<close>

lemmas call_defs = Post_def Get_def Do_def do_def handle_def call_start_def inRange_def
  plainClient_def rbac0_def services_def answer_def reply_def

lemmas body_defs = userBody_def badTokenBody_def eastBody_def unit42Body_def abcBody_def
  downBody_def

lemma getAuthentication_tok:
  "getAuthentication ''Bearer tok'' = Inr \<lparr>Type = ''Bearer'', Credenteials = ''tok''\<rparr>"
  by (simp add: getAuthentication_def NewAuthentication_def ErrNoToken_def)

lemma getUser_ok:
  "getUser rbac0 tableJson (services (answer 200 userBody) lines units)
     \<lparr>Type = ''Bearer'', Credenteials = ''tok''\<rparr>
   = Inr (tokUser, 200, None, [tokenRequest])"
  by (simp add: getUser_def tableJson_def String_def zeroUser_def tokUser_def tokenRequest_def
      call_defs)

lemma fanOut_down:
  "fanOut rbac0 tableJson (services login (answer 503 downBody) (answer 200 unit42Body)) False tokUser
   = Inr (tokUser\<lparr>BusinessUnits := [42]\<rparr>, [\<lparr>Code = 503, Message = ''down''\<rparr>],
          [refRequest ''/v2/umvrefdata/businessline'' ''Bearer tok'',
           refRequest ''/v2/umvrefdata/businessunit'' ''Bearer tok''])"
  by (simp add: fanOut_def getBusinessLines_def getBusinessUnits_def tableJson_def String_def
      tokUser_def refRequest_def call_defs body_defs Atoi_def isDigit_def)

subsection \<open>The decision on the collected errors\<close>

lemma do_from_transport:
  assumes "fst (do c t call_start) = Inr r"
  shows "\<exists>i. t i = Inr r"
proof -
  obtain res s where run: "do c t call_start = (res, s)" by (cases "do c t call_start")
  from do_shape [OF run] assms run show ?thesis by (metis fst_conv)
qed

lemma Get_from_transport:
  assumes "Get c net rel hdrs = (Inr resp, rq)"
  shows "\<exists>i. net rq i = Inr resp"
  using assms do_from_transport [of c "net rq" resp]
  by (auto simp: Get_def Do_def Let_def)

lemma getBusinessLines_codes:
  assumes "\<forall>rq i r. net rq i = Inr r \<longrightarrow> 0 \<le> StatusCode r"
    and "getBusinessLines rbac J net user = Inr (user', errs, cs)"
  shows "\<forall>e\<in>set errs. 0 \<le> Code e"
proof -
  have "0 \<le> StatusCode resp" if "Get c net rel hdrs = (Inr resp, rq)" for c rel hdrs resp rq
    using Get_from_transport [OF that] assms(1) by blast
  then show ?thesis
    using assms(2)
    by (auto simp: getBusinessLines_def Let_def split: option.splits sum.splits prod.splits if_splits)
qed

lemma getBusinessUnits_codes:
  assumes "\<forall>rq i r. net rq i = Inr r \<longrightarrow> 0 \<le> StatusCode r"
    and "getBusinessUnits rbac J net user = Inr (user', errs, cs)"
  shows "\<forall>e\<in>set errs. 0 \<le> Code e"
proof -
  have "0 \<le> StatusCode resp" if "Get c net rel hdrs = (Inr resp, rq)" for c rel hdrs resp rq
    using Get_from_transport [OF that] assms(1) by blast
  then show ?thesis
    using assms(2)
    by (auto simp: getBusinessUnits_def Let_def split: option.splits sum.splits prod.splits if_splits)
qed

lemma fanOut_codes:
  assumes "\<forall>rq i r. net rq i = Inr r \<longrightarrow> 0 \<le> StatusCode r"
    and "fanOut rbac J net unitsFirst user = Inr (user', errs, cs)"
  shows "\<forall>e\<in>set errs. 0 \<le> Code e"
  using assms(2) getBusinessLines_codes [OF assms(1)] getBusinessUnits_codes [OF assms(1)]
  by (fastforce simp: fanOut_def split: sum.splits prod.splits if_splits)

text \<open>
  C2. Status codes of responses are not negative. When the request passes authentication
  parsing and token exchange and the fan-out has collected at least one error, the
  middleware decides on the first collected error alone: 502 with its message when its
  code is in [500,600), else 401 with its message when its code is not zero, else 500
  with its message. The user is not attached and the next handler is not invoked.
\<close>

theorem first_error_decides:
  assumes "\<forall>rq i r. net rq i = Inr r \<longrightarrow> 0 \<le> StatusCode r"
    and "getAuthentication header = Inr a"
    and "getUser rbac J net a = Inr (user, 200, err, calls0)"
    and "fanOut rbac J net unitsFirst user = Inr (user', errs, calls1)"
    and "errs \<noteq> []"
  shows "Middleware rbac J net unitsFirst header =
           Inr \<lparr>written =
                  Some (if 500 \<le> Code (hd errs) \<and> Code (hd errs) < 600
                        then (502, ErrorResponse (Message (hd errs)))
                        else if Code (hd errs) \<noteq> 0
                        then (401, UnauthorizedResponse UnauthorizedMSG (Message (hd errs)))
                        else (500, ErrorResponse (Message (hd errs)))),
                attached = None, nextCalls = 0, calls = calls0 @ calls1\<rparr>"
proof -
  have "0 \<le> Code (hd errs)"
    using fanOut_codes [OF assms(1) assms(4)] assms(5) by simp
  moreover have "errs ! 0 = hd errs"
    using assms(5) by (simp add: hd_conv_nth)
  ultimately show ?thesis
    using assms(2-5)
    by (simp add: Middleware_def aggregate_def reject_def IsServerError_def inRange_def Let_def)
qed

text \<open>
  An instance: the business-line endpoint answers 503 with the message \<open>down\<close>, and the
  request is rejected with 502 and that message.
\<close>

theorem first_error_decides_witness:
  "Middleware rbac0 tableJson
     (services (answer 200 userBody) (answer 503 downBody) (answer 200 unit42Body))
     False ''Bearer tok''
   = Inr \<lparr>written = Some (502, ErrorResponse ''down''), attached = None, nextCalls = 0,
          calls = [tokenRequest,
                   refRequest ''/v2/umvrefdata/businessline'' ''Bearer tok'',
                   refRequest ''/v2/umvrefdata/businessunit'' ''Bearer tok'']\<rparr>"
proof -
  let ?net = "services (answer 200 userBody) (answer 503 downBody) (answer 200 unit42Body)"
  have codes: "\<forall>rq i r. ?net rq i = Inr r \<longrightarrow> 0 \<le> StatusCode r"
    by (auto simp: services_def answer_def reply_def)
  have errs: "[\<lparr>Code = 503, Message = ''down''\<rparr>] \<noteq> []" by simp
  from first_error_decides [OF codes getAuthentication_tok getUser_ok fanOut_down errs]
  show ?thesis by simp
qed

subsection \<open>The token-exchange gate\<close>

lemma calls_aggregate: "calls (aggregate user errs cs) = cs"
  by (simp add: aggregate_def reject_def Let_def)

lemma getBusinessLines_calls:
  assumes "memberWrapper rbac = Some mw"
  shows "\<exists>user' errs rq. getBusinessLines rbac J net user = Inr (user', errs, [rq])
           \<and> Path rq = ''/v2/umvrefdata/businessline''"
  using assms
  by (auto simp: getBusinessLines_def Get_def Do_def Let_def split: sum.splits prod.splits)

lemma getBusinessUnits_calls:
  assumes "memberWrapper rbac = Some mw"
  shows "\<exists>user' errs rq. getBusinessUnits rbac J net user = Inr (user', errs, [rq])
           \<and> Path rq = ''/v2/umvrefdata/businessunit''"
  using assms
  by (auto simp: getBusinessUnits_def Get_def Do_def Let_def
      split: sum.splits prod.splits option.splits)

lemma fanOut_calls:
  assumes "memberWrapper rbac = Some mw"
  shows "\<exists>user' errs cs. fanOut rbac J net unitsFirst user = Inr (user', errs, cs)
           \<and> map Path cs = [''/v2/umvrefdata/businessline'', ''/v2/umvrefdata/businessunit'']"
proof -
  obtain u1 e1 rq1 where l: "getBusinessLines rbac J net user = Inr (u1, e1, [rq1])"
      "Path rq1 = ''/v2/umvrefdata/businessline''"
    using getBusinessLines_calls [OF assms] by blast
  obtain u2 e2 rq2 where u: "getBusinessUnits rbac J net u1 = Inr (u2, e2, [rq2])"
      "Path rq2 = ''/v2/umvrefdata/businessunit''"
    using getBusinessUnits_calls [OF assms] by blast
  show ?thesis using l u by (simp add: fanOut_def)
qed

lemma Post_path: "Post c net rel hdrs body = (res, rq) \<Longrightarrow> Path rq = rel"
  by (auto simp: Post_def Do_def Let_def)

text \<open>
  C3. For a request that passes authentication parsing, let \<open>res\<close> be what the login
  client returns for \<open>POST /token\<close>. With status 200 the middleware goes on to the
  enrichment: both reference endpoints are called, after the token call. With status 401 it
  rejects with 401, and the detail of the rejection is the message decoded from the
  \<open>{error}\<close> body whenever that body decodes. With any other outcome (another status, or
  no response at all) it rejects with 502. On both rejections the token call is the only
  outbound call, the user is not attached and the next handler is not invoked.
\<close>

theorem exchange_gate:
  assumes "getAuthentication header = Inr a"
    and "loginService rbac = Some ls"
    and "MarshalToken J (Credenteials a) = Inr body"
    and "Post ls net ''/token'' [(''Authorization'', String a)] body = (res, rq)"
  shows "Path rq = ''/token''
     \<and> (\<forall>resp mw. res = Inr resp \<and> StatusCode resp = 200 \<and> memberWrapper rbac = Some mw \<longrightarrow>
          (\<exists>out. Middleware rbac J net unitsFirst header = Inr out
             \<and> map Path (calls out) =
                 [''/token'', ''/v2/umvrefdata/businessline'', ''/v2/umvrefdata/businessunit'']))
     \<and> (\<forall>resp. res = Inr resp \<and> StatusCode resp = 401 \<longrightarrow>
          (\<exists>detail. Middleware rbac J net unitsFirst header =
             Inr \<lparr>written = Some (401, UnauthorizedResponse UnauthorizedMSG detail),
                  attached = None, nextCalls = 0, calls = [rq]\<rparr>
           \<and> (\<forall>msg. UnmarshalError J (Body resp) = Inr msg \<longrightarrow> detail = msg)))
     \<and> ((\<forall>resp. res = Inr resp \<longrightarrow> StatusCode resp \<noteq> 200 \<and> StatusCode resp \<noteq> 401) \<longrightarrow>
          (\<exists>detail. Middleware rbac J net unitsFirst header =
             Inr \<lparr>written = Some (502, ErrorResponse detail),
                  attached = None, nextCalls = 0, calls = [rq]\<rparr>))"
proof (intro conjI allI impI)
  show "Path rq = ''/token''" using Post_path [OF assms(4)] .
next
  fix resp mw
  assume h: "res = Inr resp \<and> StatusCode resp = 200 \<and> memberWrapper rbac = Some mw"
  have "\<exists>user err. getUser rbac J net a = Inr (user, 200, err, [rq])"
  proof -
    obtain info exp roles e where "UnmarshalUser J (Body resp) = ((info, exp, roles), e)"
      by (metis surj_pair)
    then show ?thesis
      using assms h by (cases e) (simp_all add: getUser_def Let_def)
  qed
  then obtain user err where gu: "getUser rbac J net a = Inr (user, 200, err, [rq])"
    by blast
  obtain user' errs cs where fo: "fanOut rbac J net unitsFirst user = Inr (user', errs, cs)"
      "map Path cs = [''/v2/umvrefdata/businessline'', ''/v2/umvrefdata/businessunit'']"
  proof -
    from h have "memberWrapper rbac = Some mw" by simp
    from fanOut_calls [OF this, of J net unitsFirst user] that show ?thesis by auto
  qed
  have "Middleware rbac J net unitsFirst header = Inr (aggregate user' errs ([rq] @ cs))"
    using assms(1) gu fo(1) by (simp add: Middleware_def)
  moreover have "map Path (calls (aggregate user' errs ([rq] @ cs))) =
      [''/token'', ''/v2/umvrefdata/businessline'', ''/v2/umvrefdata/businessunit'']"
    using fo(2) Post_path [OF assms(4)] by (simp add: calls_aggregate)
  ultimately show "\<exists>out. Middleware rbac J net unitsFirst header = Inr out
             \<and> map Path (calls out) =
                 [''/token'', ''/v2/umvrefdata/businessline'', ''/v2/umvrefdata/businessunit'']"
    by simp
next
  fix resp
  assume h: "res = Inr resp \<and> StatusCode resp = 401"
  show "\<exists>detail. Middleware rbac J net unitsFirst header =
             Inr \<lparr>written = Some (401, UnauthorizedResponse UnauthorizedMSG detail),
                  attached = None, nextCalls = 0, calls = [rq]\<rparr>
           \<and> (\<forall>msg. UnmarshalError J (Body resp) = Inr msg \<longrightarrow> detail = msg)"
    using assms h
    by (cases "UnmarshalError J (Body resp)")
       (auto simp: Middleware_def getUser_def reject_def Let_def)
next
  assume h: "\<forall>resp. res = Inr resp \<longrightarrow> StatusCode resp \<noteq> 200 \<and> StatusCode resp \<noteq> 401"
  show "\<exists>detail. Middleware rbac J net unitsFirst header =
             Inr \<lparr>written = Some (502, ErrorResponse detail),
                  attached = None, nextCalls = 0, calls = [rq]\<rparr>"
  proof (cases res)
    case (Inl e)
    then show ?thesis
      using assms by (simp add: Middleware_def getUser_def reject_def Let_def)
  next
    case (Inr resp)
    with h have "StatusCode resp \<noteq> 200 \<and> StatusCode resp \<noteq> 401" by blast
    then show ?thesis
      using assms Inr
      by (cases "UnmarshalError J (Body resp)")
         (auto simp: Middleware_def getUser_def reject_def Let_def)
  qed
qed

text \<open>
  An instance: the login service answers 401 with \<open>{"error":"bad token"}\<close>.
\<close>

theorem exchange_gate_witness:
  "Middleware rbac0 tableJson
     (services (answer 401 badTokenBody) (answer 200 eastBody) (answer 200 unit42Body))
     False ''Bearer tok''
   = Inr \<lparr>written = Some (401, UnauthorizedResponse UnauthorizedMSG ''bad token''),
          attached = None, nextCalls = 0, calls = [tokenRequest]\<rparr>"
proof -
  let ?net = "services (answer 401 badTokenBody) (answer 200 eastBody) (answer 200 unit42Body)"
  let ?a = "\<lparr>Type = ''Bearer'', Credenteials = ''tok''\<rparr>"
  have ls: "loginService rbac0 = Some (plainClient ''http://login'' 0)"
    by (simp add: rbac0_def)
  have body: \<open>MarshalToken tableJson (Credenteials ?a) = Inr ''{"token":"tok"}''\<close>
    by (simp add: tableJson_def)
  have post: \<open>Post (plainClient ''http://login'' 0) ?net ''/token''
      [(''Authorization'', String ?a)] ''{"token":"tok"}''
      = (Inr (reply 401 badTokenBody), tokenRequest)\<close>
    by (simp add: String_def tokenRequest_def call_defs)
  have decoded: "UnmarshalError tableJson (Body (reply 401 badTokenBody)) = Inr ''bad token''"
    by (simp add: tableJson_def reply_def)
  have "\<forall>resp. Inr (reply 401 badTokenBody) = Inr resp \<and> StatusCode resp = 401 \<longrightarrow>
          (\<exists>detail. Middleware rbac0 tableJson ?net False ''Bearer tok'' =
             Inr \<lparr>written = Some (401, UnauthorizedResponse UnauthorizedMSG detail),
                  attached = None, nextCalls = 0, calls = [tokenRequest]\<rparr>
           \<and> (\<forall>msg. UnmarshalError tableJson (Body resp) = Inr msg \<longrightarrow> detail = msg))"
    using exchange_gate [OF getAuthentication_tok ls body post, of False] by blast
  moreover have "StatusCode (reply 401 badTokenBody) = 401" by (simp add: reply_def)
  ultimately show ?thesis using decoded by auto
qed

subsection \<open>A parse failure in the business-unit branch\<close>

text \<open>
  When the business-unit endpoint answers 200 and a row's code does not parse, the error
  of the branch has the code 200, and an error with that code at the head of the collected
  errors is answered with 401.
\<close>

lemma getBusinessUnits_parse_failure:
  assumes "memberWrapper rbac = Some mw"
    and "Get mw net ''/v2/umvrefdata/businessunit''
           [(''Authorization'', String (Authentication user))] = (Inr resp, rq)"
    and "StatusCode resp = 200"
    and "UnmarshalRefData J (Body resp) = Inr rows"
    and "appendUnits rows (BusinessUnits user) = (units, Some e)"
  shows "getBusinessUnits rbac J net user =
           Inr (user\<lparr>BusinessUnits := units\<rparr>,
                [\<lparr>Code = 200, Message = NumError_Error e\<rparr>], [rq])"
  using assms by (simp add: getBusinessUnits_def)

lemma appendUnits_failure:
  "(\<exists>units e. appendUnits rows us = (units, Some e))
     = (\<exists>r\<in>set rows. \<exists>e. Atoi (RefCode r) = Inl e)"
  by (induction rows arbitrary: us) (auto split: sum.splits)

lemma aggregate_code_200:
  "aggregate user (\<lparr>Code = 200, Message = msg\<rparr> # errs) cs =
     reject 401 (UnauthorizedResponse UnauthorizedMSG msg) cs"
  by (simp add: aggregate_def IsServerError_def inRange_def)

text \<open>
  C1 does not hold of the code. The login service answers 200 with a user, the business-line
  endpoint answers 200 with one row, and the business-unit endpoint answers 200 with a row
  whose code is \<open>abc\<close>. The branch stops with an error that carries the text of the
  \<open>Atoi\<close> error, but also the code 200, which it had copied from the response before
  looking at the rows. The middleware takes a positive code outside [500,600) for a
  rejection by the service and answers 401, in either order of the branches; it does not
  answer 500.
\<close>

theorem non_numeric_unit_answered_401:
  "getBusinessUnits rbac0 tableJson
     (services (answer 200 userBody) (answer 200 eastBody) (answer 200 abcBody))
     (tokUser\<lparr>BusinessLines := [''East'']\<rparr>)
   = Inr (tokUser\<lparr>BusinessLines := [''East'']\<rparr>,
          [\<lparr>Code = 200,
            Message = ''strconv.Atoi: parsing '' @ [CHR 0x22] @ ''abc'' @ [CHR 0x22]
                        @ '': invalid syntax''\<rparr>],
          [refRequest ''/v2/umvrefdata/businessunit'' ''Bearer tok''])
   \<and> (\<forall>unitsFirst.
        Middleware rbac0 tableJson
          (services (answer 200 userBody) (answer 200 eastBody) (answer 200 abcBody))
          unitsFirst ''Bearer tok''
        = Inr \<lparr>written =
                 Some (401, UnauthorizedResponse ''The request is not authorized''
                         (''strconv.Atoi: parsing '' @ [CHR 0x22] @ ''abc'' @ [CHR 0x22]
                            @ '': invalid syntax'')),
               attached = None, nextCalls = 0,
               calls = [tokenRequest,
                        refRequest ''/v2/umvrefdata/businessline'' ''Bearer tok'',
                        refRequest ''/v2/umvrefdata/businessunit'' ''Bearer tok'']\<rparr>)"
proof -
  let ?net = "services (answer 200 userBody) (answer 200 eastBody) (answer 200 abcBody)"
  have lines: "getBusinessLines rbac0 tableJson ?net tokUser
      = Inr (tokUser\<lparr>BusinessLines := [''East'']\<rparr>, [],
             [refRequest ''/v2/umvrefdata/businessline'' ''Bearer tok''])"
    by (simp add: getBusinessLines_def tableJson_def String_def tokUser_def refRequest_def
        call_defs body_defs)
  have units: "getBusinessUnits rbac0 tableJson ?net (tokUser\<lparr>BusinessLines := [''East'']\<rparr>)
      = Inr (tokUser\<lparr>BusinessLines := [''East'']\<rparr>,
          [\<lparr>Code = 200,
            Message = ''strconv.Atoi: parsing '' @ [CHR 0x22] @ ''abc'' @ [CHR 0x22]
                        @ '': invalid syntax''\<rparr>],
          [refRequest ''/v2/umvrefdata/businessunit'' ''Bearer tok''])"
    by (simp add: getBusinessUnits_def tableJson_def String_def tokUser_def refRequest_def
        call_defs body_defs Atoi_def isDigit_def NumError_Error_def)
  show ?thesis
    using lines units
    by (simp add: Middleware_def getAuthentication_tok getUser_ok fanOut_def aggregate_def
        reject_def IsServerError_def inRange_def UnauthorizedMSG_def)
qed

subsection \<open>The user after token exchange\<close>

text \<open>
  When \<open>getUser\<close> reports no error, the status was 200 and the user carries the
  Authentication of the request and no business lines or units yet. When it reports an
  error, the Authentication of the user is unset; the user is the zero value unless the
  status was 200.
\<close>

lemma getUser_exchanged:
  assumes "getUser rbac J net a = Inr (user, code, None, cs)"
  shows "code = 200 \<and> Authentication user = a
       \<and> BusinessLines user = [] \<and> BusinessUnits user = []"
  using assms
  by (auto simp: getUser_def Let_def zeroUser_def
      split: sum.splits option.splits prod.splits if_splits)

lemma getUser_not_exchanged:
  assumes "getUser rbac J net a = Inr (user, code, Some e, cs)"
  shows "Authentication user = zeroAuthentication
       \<and> (code \<noteq> 200 \<longrightarrow> user = zeroUser)"
  using assms
  by (auto simp: getUser_def Let_def zeroUser_def
      split: sum.splits option.splits prod.splits if_splits)

text \<open>
  C8 does not hold of the code. The login service answers 200 with an empty body, which
  does not decode. \<open>getUser\<close> returns the error together with the code 200 and a user
  whose Authentication was never set; the middleware looks at the code alone, runs the
  enrichment with an empty Authorization header and attaches that user to the request.
\<close>

theorem undecoded_user_attached:
  "getUser rbac0 tableJson
     (services (answer 200 []) (answer 200 eastBody) (answer 200 unit42Body))
     \<lparr>Type = ''Bearer'', Credenteials = ''tok''\<rparr>
   = Inr (zeroUser, 200, Some (errorString ''unexpected end of JSON input''), [tokenRequest])
   \<and> (\<forall>unitsFirst.
        Middleware rbac0 tableJson
          (services (answer 200 []) (answer 200 eastBody) (answer 200 unit42Body))
          unitsFirst ''Bearer tok''
        = Inr \<lparr>written = None,
               attached = Some \<lparr>Authentication = \<lparr>Type = [], Credenteials = []\<rparr>, Info = [],
                                 ExpTime = 0, Roles = [], BusinessLines = [''East''],
                                 BusinessUnits = [42]\<rparr>,
               nextCalls = 1,
               calls = [tokenRequest,
                        refRequest ''/v2/umvrefdata/businessline'' [],
                        refRequest ''/v2/umvrefdata/businessunit'' []]\<rparr>)"
proof -
  let ?net = "services (answer 200 []) (answer 200 eastBody) (answer 200 unit42Body)"
  have user: "getUser rbac0 tableJson ?net \<lparr>Type = ''Bearer'', Credenteials = ''tok''\<rparr>
      = Inr (zeroUser, 200, Some (errorString ''unexpected end of JSON input''), [tokenRequest])"
    by (simp add: getUser_def tableJson_def String_def zeroUser_def tokenRequest_def
        call_defs body_defs)
  have lines: "getBusinessLines rbac0 tableJson ?net zeroUser
      = Inr (zeroUser\<lparr>BusinessLines := [''East'']\<rparr>, [],
             [refRequest ''/v2/umvrefdata/businessline'' []])"
    by (simp add: getBusinessLines_def tableJson_def String_def zeroUser_def
        zeroAuthentication_def refRequest_def call_defs body_defs)
  have units: "getBusinessUnits rbac0 tableJson ?net (zeroUser\<lparr>BusinessLines := [''East'']\<rparr>)
      = Inr (zeroUser\<lparr>BusinessLines := [''East''], BusinessUnits := [42]\<rparr>, [],
             [refRequest ''/v2/umvrefdata/businessunit'' []])"
    by (simp add: getBusinessUnits_def tableJson_def String_def zeroUser_def
        zeroAuthentication_def refRequest_def call_defs body_defs Atoi_def isDigit_def)
  show ?thesis
    using user lines units
    by (simp add: Middleware_def getAuthentication_tok fanOut_def aggregate_def
        zeroUser_def zeroAuthentication_def)
qed

section \<open>Construction of the middleware\<close>

lemma New_plain: "New sys0 (conf0 ''http://login'') = Inr (plainClient ''http://login'' 0)"
  by (simp add: New_def sys0_def conf0_def plainClient_def)

lemma New_bad: "\<exists>e. New sys0 (conf0 '':'') = Inl e"
  by (simp add: New_def sys0_def conf0_def)

text \<open>
  C10. When the login-service configuration yields a client, \<open>NewRBAC\<close> returns an RBAC
  and no error, whatever the member-wrapper configuration: if \<open>New\<close> fails on it, the
  error is dropped and the member-wrapper client of the RBAC is nil.
\<close>

theorem member_wrapper_error_discarded:
  assumes "New sys (LoginService cfg) = Inr ls"
  shows "(\<forall>e. New sys (MemberWrapper cfg) = Inl e \<longrightarrow>
            NewRBAC sys cfg = Inr \<lparr>loginService = Some ls, memberWrapper = None\<rparr>)
       \<and> (\<forall>mw. New sys (MemberWrapper cfg) = Inr mw \<longrightarrow>
            NewRBAC sys cfg = Inr \<lparr>loginService = Some ls, memberWrapper = Some mw\<rparr>)"
  using assms by (simp add: NewRBAC_def)

text \<open>
  An instance: the member-wrapper URL \<open>:\<close> does not parse.
\<close>

theorem member_wrapper_error_discarded_witness:
  "NewRBAC sys0 \<lparr>LoginService = conf0 ''http://login'', MemberWrapper = conf0 '':''\<rparr>
   = Inr \<lparr>loginService = Some (plainClient ''http://login'' 0), memberWrapper = None\<rparr>"
proof -
  let ?cfg = "\<lparr>LoginService = conf0 ''http://login'', MemberWrapper = conf0 '':''\<rparr>"
  have login: "New sys0 (LoginService ?cfg) = Inr (plainClient ''http://login'' 0)"
    by (simp add: New_plain)
  obtain e where member: "New sys0 (MemberWrapper ?cfg) = Inl e"
    using New_bad by auto
  from member_wrapper_error_discarded [OF login] member show ?thesis by blast
qed

text \<open>
  With a nil member-wrapper client, every request that gets past token exchange ends in a
  nil pointer dereference in the first enrichment branch.
\<close>

lemma nil_member_wrapper_panics:
  assumes "memberWrapper rbac = None"
    and "getAuthentication header = Inr a"
    and "getUser rbac J net a = Inr (user, 200, err, calls0)"
  shows "Middleware rbac J net unitsFirst header = Inl NilPointerDereference"
  using assms by (simp add: Middleware_def fanOut_def getBusinessLines_def)

end
